theory Spec2Isabelle
  imports Main "HOL-Library.Sublist"
begin

section \<open>The request node: data model\<close>

text \<open>
  The development embeds \<^verbatim>\<open>src/src/requestNode.ts\<close>: the class \<^verbatim>\<open>RequestNode\<close> with its
  constructor, its method \<^verbatim>\<open>initialize()\<close> and the routes that \<^verbatim>\<open>mountRoutes()\<close> installs.

  The only field of the class that is ever written after construction is the boolean
  \<^verbatim>\<open>initialized\<close>; \<^verbatim>\<open>dataAccess\<close>, \<^verbatim>\<open>express\<close> and \<^verbatim>\<open>logger\<close> are references to
  collaborators that live outside the class. What the code does to those collaborators is
  recorded as a list of events, in program order.
\<close>

record RequestNode =
  initialized :: bool

type_synonym error = string

datatype route =
    Healthz
  | Readyz
  | PersistTransaction
  | GetTransactionsByChannelId
  | GetChannelsByTopic

datatype event =
    Logger_info string
    \<comment> \<open>\<^verbatim>\<open>this.logger.info(msg)\<close>\<close>
  | Logger_error string
    \<comment> \<open>\<^verbatim>\<open>this.logger.error(msg)\<close>\<close>
  | Logger_info_time_to_initialize int "string list"
    \<comment> \<open>\<^verbatim>\<open>this.logger.info(`Time to initialize: ${(end - start) / 1000}s`, tags)\<close>; the
        integer is \<^verbatim>\<open>end - start\<close>, in milliseconds\<close>
  | Sleep nat
    \<comment> \<open>\<^verbatim>\<open>await sleep(ms)\<close>\<close>
  | DataAccess string
    \<comment> \<open>a call of the method of \<^verbatim>\<open>this.dataAccess\<close> with that name\<close>
  | Assign_initialized bool
    \<comment> \<open>the assignment \<^verbatim>\<open>this.initialized = b\<close>\<close>
  | Route_handler route
    \<comment> \<open>a call of the handler function of that route, with \<^verbatim>\<open>this.dataAccess\<close> and the logger\<close>

text \<open>
  A request as the router sees it: the HTTP method, the path, and the rest (query string and
  body), which the class passes to the handlers without looking at it. A response is the
  status code and the body that a callback passes to
  \<^verbatim>\<open>serverResponse.status(code).send(body)\<close>. What Express then puts on the wire (the
  headers, and no body in the answer to a HEAD request) is left to the transport.
\<close>

record request =
  http_method :: string
  path :: string
  content :: string

record response =
  status :: nat
  body :: string

definition send :: "nat \<Rightarrow> string \<Rightarrow> response" where
  "send code text = \<lparr>status = code, body = text\<rparr>"

text \<open>The three constants of \<^verbatim>\<open>http-status-codes\<close> that the class uses.\<close>

definition httpStatus_OK :: nat where
  "httpStatus_OK = 200"

definition httpStatus_SERVICE_UNAVAILABLE :: nat where
  "httpStatus_SERVICE_UNAVAILABLE = 503"

definition httpStatus_NOT_FOUND :: nat where
  "httpStatus_NOT_FOUND = 404"

definition NOT_FOUND_MESSAGE :: string where
  "NOT_FOUND_MESSAGE =
     ''Not found'' @ [CHR 0x0A] @
     ''Available endpoints:'' @ [CHR 0x0A] @
     ''/POST persistTransaction'' @ [CHR 0x0A] @
     ''/GET getTransactionsByChannelId'' @ [CHR 0x0A] @
     ''/GET getChannelsByTopic''"

definition NOT_INITIALIZED_MESSAGE :: string where
  "NOT_INITIALIZED_MESSAGE = ''The node is not initialized''"

text \<open>
  The constructor sets \<^verbatim>\<open>this.initialized = false\<close>, builds the data-access layer and
  mounts the routes.
\<close>

definition RequestNode_new :: RequestNode where
  "RequestNode_new = \<lparr>initialized = False\<rparr>"

section \<open>The method initialize\<close>

text \<open>
  One run of \<^verbatim>\<open>initialize()\<close> depends on four things the class does not control: the two
  readings of \<^verbatim>\<open>Date.now()\<close>, whether the promise of \<^verbatim>\<open>dataAccess.initialize()\<close> is
  fulfilled (\<open>None\<close>) or rejected with an error (\<open>Some e\<close>), and whether
  \<^verbatim>\<open>dataAccess.startAutoSynchronization()\<close> returns (\<open>None\<close>) or throws (\<open>Some e\<close>).
  The promise of \<^verbatim>\<open>sleep\<close> is resolved by a timer and is never rejected; the logger is
  taken not to throw.
\<close>

record env =
  now_start :: int
  now_end :: int
  dataAccess_initialize :: "error option"
  dataAccess_startAutoSynchronization :: "error option"

text \<open>
  The result is the value of the returned promise (\<open>Inl e\<close> when it is rejected with
  \<open>e\<close>), the object after the run, and the events of the run in order.
\<close>

definition initialize :: "env \<Rightarrow> RequestNode \<Rightarrow> (error + unit) \<times> RequestNode \<times> event list" where
  "initialize e this =
     (let started = [Logger_info ''Node initialization'', Sleep 10000, DataAccess ''initialize'']
      in case dataAccess_initialize e of
           Some err \<Rightarrow>
             (Inl err, this, started @ [Logger_error ''Node failed to initialize''])
         | None \<Rightarrow>
             (case dataAccess_startAutoSynchronization e of
                Some err \<Rightarrow>
                  (Inl err, this,
                   started @ [DataAccess ''startAutoSynchronization'',
                              Logger_error ''Node failed to start auto synchronization''])
              | None \<Rightarrow>
                  (Inr (), this\<lparr>initialized := True\<rparr>,
                   started @ [DataAccess ''startAutoSynchronization'',
                              Assign_initialized True,
                              Logger_info ''Node initialized'',
                              Logger_info_time_to_initialize (now_end e - now_start e)
                                [''metric'', ''initialization'']])))"

definition result_of :: "'a \<times> RequestNode \<times> event list \<Rightarrow> 'a" where
  "result_of r = fst r"

definition node_of :: "'a \<times> RequestNode \<times> event list \<Rightarrow> RequestNode" where
  "node_of r = fst (snd r)"

definition events_of :: "'a \<times> RequestNode \<times> event list \<Rightarrow> event list" where
  "events_of r = snd (snd r)"

section \<open>The routes\<close>

text \<open>
  The three handlers \<^verbatim>\<open>persistTransaction\<close>, \<^verbatim>\<open>getTransactionsByChannelId\<close> and
  \<^verbatim>\<open>getChannelsByTopic\<close> are imported from \<^verbatim>\<open>./request/\<close> and are parameters here: each
  maps the request to the response it writes and to the events it causes (its calls of the
  data-access layer and of the logger). They receive the request, the response, the
  data-access layer and the logger, never the node itself, so they cannot write
  \<^verbatim>\<open>initialized\<close>.
\<close>

type_synonym handler = "request \<Rightarrow> response \<times> event list"

record handlers =
  persistTransaction :: handler
  getTransactionsByChannelId :: handler
  getChannelsByTopic :: handler

definition invoke :: "route \<Rightarrow> handler \<Rightarrow> request \<Rightarrow> response \<times> event list" where
  "invoke r h req = (fst (h req), Route_handler r # snd (h req))"

text \<open>
  Which requests a layer \<^verbatim>\<open>router.get(p, f)\<close> or \<^verbatim>\<open>router.post(p, f)\<close> takes is
  decided by Express. The router is made by \<^verbatim>\<open>express.Router()\<close> with no options, so
  it compares paths without regard to the case of ASCII letters and allows one trailing
  slash (the pattern of \<^verbatim>\<open>/healthz\<close> is \<^verbatim>\<open>^\/healthz\/?$\<close>, case-insensitive), it
  compares the method in lower case, and a route that has a handler for GET and none for
  HEAD also takes HEAD.
\<close>

definition to_lower :: "char \<Rightarrow> char" where
  "to_lower c =
     (case map_of (zip ''ABCDEFGHIJKLMNOPQRSTUVWXYZ'' ''abcdefghijklmnopqrstuvwxyz'') c of
        Some l \<Rightarrow> l
      | None \<Rightarrow> c)"

definition path_match :: "string \<Rightarrow> request \<Rightarrow> bool" where
  "path_match p req =
     (map to_lower (path req) = map to_lower p
      \<or> map to_lower (path req) = map to_lower p @ ''/'')"

definition method_match :: "string \<Rightarrow> request \<Rightarrow> bool" where
  "method_match verb req =
     (map to_lower (http_method req) = map to_lower verb
      \<or> (map to_lower verb = ''get'' \<and> map to_lower (http_method req) = ''head''))"

definition express_match :: "string \<Rightarrow> string \<Rightarrow> request \<Rightarrow> bool" where
  "express_match verb p req = (method_match verb req \<and> path_match p req)"

text \<open>
  The router of \<^verbatim>\<open>mountRoutes\<close>, its five routes in the order of the source. \<open>None\<close>
  is a request that no route takes and that the router passes on.
\<close>

definition router :: "handlers \<Rightarrow> RequestNode \<Rightarrow> request \<Rightarrow> (response \<times> event list) option" where
  "router hs this req =
     (if express_match ''GET'' ''/healthz'' req then
        Some (send httpStatus_OK ''OK'', [])
      else if express_match ''GET'' ''/readyz'' req then
        (if initialized this then Some (send httpStatus_OK ''OK'', [])
         else Some (send httpStatus_SERVICE_UNAVAILABLE NOT_INITIALIZED_MESSAGE, []))
      else if express_match ''POST'' ''/persistTransaction'' req then
        (if initialized this then Some (invoke PersistTransaction (persistTransaction hs) req)
         else Some (send httpStatus_SERVICE_UNAVAILABLE NOT_INITIALIZED_MESSAGE, []))
      else if express_match ''GET'' ''/getTransactionsByChannelId'' req then
        (if initialized this
         then Some (invoke GetTransactionsByChannelId (getTransactionsByChannelId hs) req)
         else Some (send httpStatus_SERVICE_UNAVAILABLE NOT_INITIALIZED_MESSAGE, []))
      else if express_match ''GET'' ''/getChannelsByTopic'' req then
        (if initialized this then Some (invoke GetChannelsByTopic (getChannelsByTopic hs) req)
         else Some (send httpStatus_SERVICE_UNAVAILABLE NOT_INITIALIZED_MESSAGE, []))
      else None)"

text \<open>
  The application that \<^verbatim>\<open>mountRoutes\<close> builds: the router, then the last middleware, which
  answers 404. The middlewares mounted before the router (\<^verbatim>\<open>cors()\<close>, the custom headers,
  \<^verbatim>\<open>express.json()\<close>, \<^verbatim>\<open>express.urlencoded()\<close>) belong to the transport: the request
  of this model is the one they hand to the router, and the headers they add are not part
  of \<open>response\<close>. In particular \<^verbatim>\<open>cors()\<close> answers every OPTIONS request itself, so
  the router sees none.
\<close>

definition mountRoutes :: "handlers \<Rightarrow> RequestNode \<Rightarrow> request \<Rightarrow> response \<times> event list" where
  "mountRoutes hs this req =
     (case router hs this req of
        Some answer \<Rightarrow> answer
      | None \<Rightarrow> (send httpStatus_NOT_FOUND NOT_FOUND_MESSAGE, []))"

text \<open>
  The three application routes as the interface of the node lists them: a request with
  exactly that method and exactly that path.
\<close>

definition exactly :: "string \<Rightarrow> string \<Rightarrow> request \<Rightarrow> bool" where
  "exactly verb p req = (http_method req = verb \<and> path req = p)"


text \<open>Concrete handlers and requests for the closed instances below.\<close>

definition sample_handlers :: handlers where
  "sample_handlers =
     \<lparr>persistTransaction = (\<lambda>req. (send 200 ''stored'', [DataAccess ''persistTransaction''])),
      getTransactionsByChannelId =
        (\<lambda>req. (send 200 ''transactions'', [DataAccess ''getTransactionsByChannelId''])),
      getChannelsByTopic = (\<lambda>req. (send 200 ''channels'', [DataAccess ''getChannelsByTopic'']))\<rparr>"

definition http :: "string \<Rightarrow> string \<Rightarrow> request" where
  "http verb p = \<lparr>http_method = verb, path = p, content = []\<rparr>"

section \<open>Histories of one node\<close>

text \<open>
  A run of \<^verbatim>\<open>initialize()\<close> succeeds when both calls of the data-access layer do;
  otherwise it is rejected with the error of the first call that fails.
\<close>

definition succeeds :: "env \<Rightarrow> bool" where
  "succeeds e =
     (dataAccess_initialize e = None \<and> dataAccess_startAutoSynchronization e = None)"

definition failure :: "env \<Rightarrow> error option" where
  "failure e =
     (case dataAccess_initialize e of
        Some err \<Rightarrow> Some err
      | None \<Rightarrow> dataAccess_startAutoSynchronization e)"

text \<open>
  What can happen to a node after its construction: a call of \<^verbatim>\<open>initialize()\<close>, with the
  outcomes of that run, or a request, with the handlers in place. The route callbacks only
  read \<^verbatim>\<open>this.initialized\<close>, so a request leaves the node as it is. The assignment of
  \<^verbatim>\<open>initialize()\<close> comes after its last \<^verbatim>\<open>await\<close>: a request that arrives while a run
  is waiting reads the flag as it was before that run, and stands before the run in the
  history.
\<close>

datatype operation = Initialize env | Request handlers request

fun apply_operation :: "RequestNode \<Rightarrow> operation \<Rightarrow> RequestNode" where
  "apply_operation this (Initialize e) = node_of (initialize e this)"
| "apply_operation this (Request hs req) = this"

definition run :: "RequestNode \<Rightarrow> operation list \<Rightarrow> RequestNode" where
  "run this ops = foldl apply_operation this ops"


fun is_successful_initialize :: "operation \<Rightarrow> bool" where
  "is_successful_initialize (Initialize e) = succeeds e"
| "is_successful_initialize (Request hs req) = False"

text \<open>Kinds of events.\<close>

fun is_state_write :: "event \<Rightarrow> bool" where
  "is_state_write (Assign_initialized b) = True"
| "is_state_write _ = False"

fun is_timing :: "event \<Rightarrow> bool" where
  "is_timing (Logger_info_time_to_initialize d tags) = True"
| "is_timing _ = False"

fun is_step :: "event \<Rightarrow> bool" where
  "is_step (Logger_info s) = False"
| "is_step (Logger_error s) = False"
| "is_step (Logger_info_time_to_initialize d tags) = False"
| "is_step _ = True"

fun without_duration :: "event \<Rightarrow> event" where
  "without_duration (Logger_info_time_to_initialize d tags) =
     Logger_info_time_to_initialize 0 tags"
| "without_duration ev = ev"

text \<open>The requests that one of the five layers of the router takes.\<close>

definition is_known_route :: "request \<Rightarrow> bool" where
  "is_known_route req =
     (express_match ''GET'' ''/healthz'' req
      \<or> express_match ''GET'' ''/readyz'' req
      \<or> express_match ''POST'' ''/persistTransaction'' req
      \<or> express_match ''GET'' ''/getTransactionsByChannelId'' req
      \<or> express_match ''GET'' ''/getChannelsByTopic'' req)"

section \<open>Concrete runs\<close>

definition env_ok :: env where
  "env_ok =
     \<lparr>now_start = 1000, now_end = 11250,
      dataAccess_initialize = None,
      dataAccess_startAutoSynchronization = None\<rparr>"

definition env_storage_down :: env where
  "env_storage_down =
     \<lparr>now_start = 1000, now_end = 11250,
      dataAccess_initialize = Some ''storage unreachable'',
      dataAccess_startAutoSynchronization = None\<rparr>"

definition env_sync_down :: env where
  "env_sync_down =
     \<lparr>now_start = 1000, now_end = 11250,
      dataAccess_initialize = None,
      dataAccess_startAutoSynchronization = Some ''synchronization refused''\<rparr>"

section \<open>What one run of initialize returns\<close>

lemma node_of_initialize:
  "node_of (initialize e this) = (if succeeds e then this\<lparr>initialized := True\<rparr> else this)"
  by (simp add: initialize_def node_of_def succeeds_def Let_def split: option.splits)

lemma result_of_initialize:
  "result_of (initialize e this) = (case failure e of None \<Rightarrow> Inr () | Some err \<Rightarrow> Inl err)"
  by (simp add: initialize_def result_of_def failure_def Let_def split: option.splits)

lemma events_of_initialize:
  "events_of (initialize e this) =
     [Logger_info ''Node initialization'', Sleep 10000, DataAccess ''initialize''] @
     (case dataAccess_initialize e of
        Some err \<Rightarrow> [Logger_error ''Node failed to initialize'']
      | None \<Rightarrow>
          DataAccess ''startAutoSynchronization'' #
          (case dataAccess_startAutoSynchronization e of
             Some err \<Rightarrow> [Logger_error ''Node failed to start auto synchronization'']
           | None \<Rightarrow>
               [Assign_initialized True, Logger_info ''Node initialized'',
                Logger_info_time_to_initialize (now_end e - now_start e)
                  [''metric'', ''initialization'']]))"
  by (simp add: initialize_def events_of_def Let_def split: option.splits)


lemma succeeds_failure: "succeeds e = (failure e = None)"
  by (auto simp: failure_def succeeds_def split: option.splits)

section \<open>Which route takes a request\<close>

lemma to_lower_upper:
  "to_lower CHR ''A'' = CHR ''a''"
  "to_lower CHR ''B'' = CHR ''b''"
  "to_lower CHR ''C'' = CHR ''c''"
  "to_lower CHR ''D'' = CHR ''d''"
  "to_lower CHR ''E'' = CHR ''e''"
  "to_lower CHR ''F'' = CHR ''f''"
  "to_lower CHR ''G'' = CHR ''g''"
  "to_lower CHR ''H'' = CHR ''h''"
  "to_lower CHR ''I'' = CHR ''i''"
  "to_lower CHR ''J'' = CHR ''j''"
  "to_lower CHR ''K'' = CHR ''k''"
  "to_lower CHR ''L'' = CHR ''l''"
  "to_lower CHR ''M'' = CHR ''m''"
  "to_lower CHR ''N'' = CHR ''n''"
  "to_lower CHR ''O'' = CHR ''o''"
  "to_lower CHR ''P'' = CHR ''p''"
  "to_lower CHR ''Q'' = CHR ''q''"
  "to_lower CHR ''R'' = CHR ''r''"
  "to_lower CHR ''S'' = CHR ''s''"
  "to_lower CHR ''T'' = CHR ''t''"
  "to_lower CHR ''U'' = CHR ''u''"
  "to_lower CHR ''V'' = CHR ''v''"
  "to_lower CHR ''W'' = CHR ''w''"
  "to_lower CHR ''X'' = CHR ''x''"
  "to_lower CHR ''Y'' = CHR ''y''"
  "to_lower CHR ''Z'' = CHR ''z''"
  by (simp_all add: to_lower_def)

lemma to_lower_other:
  "to_lower CHR ''a'' = CHR ''a''"
  "to_lower CHR ''b'' = CHR ''b''"
  "to_lower CHR ''c'' = CHR ''c''"
  "to_lower CHR ''d'' = CHR ''d''"
  "to_lower CHR ''e'' = CHR ''e''"
  "to_lower CHR ''f'' = CHR ''f''"
  "to_lower CHR ''g'' = CHR ''g''"
  "to_lower CHR ''h'' = CHR ''h''"
  "to_lower CHR ''i'' = CHR ''i''"
  "to_lower CHR ''j'' = CHR ''j''"
  "to_lower CHR ''k'' = CHR ''k''"
  "to_lower CHR ''l'' = CHR ''l''"
  "to_lower CHR ''m'' = CHR ''m''"
  "to_lower CHR ''n'' = CHR ''n''"
  "to_lower CHR ''o'' = CHR ''o''"
  "to_lower CHR ''p'' = CHR ''p''"
  "to_lower CHR ''q'' = CHR ''q''"
  "to_lower CHR ''r'' = CHR ''r''"
  "to_lower CHR ''s'' = CHR ''s''"
  "to_lower CHR ''t'' = CHR ''t''"
  "to_lower CHR ''u'' = CHR ''u''"
  "to_lower CHR ''v'' = CHR ''v''"
  "to_lower CHR ''w'' = CHR ''w''"
  "to_lower CHR ''x'' = CHR ''x''"
  "to_lower CHR ''y'' = CHR ''y''"
  "to_lower CHR ''z'' = CHR ''z''"
  "to_lower CHR ''/'' = CHR ''/''"
  by (simp_all add: to_lower_def)

lemmas match_eval =
  express_match_def method_match_def path_match_def http_def to_lower_upper to_lower_other

lemma router_healthz:
  "exactly ''GET'' ''/healthz'' req \<Longrightarrow>
   router hs this req = Some (send httpStatus_OK ''OK'', [])"
  by (simp add: exactly_def router_def match_eval)

lemma router_readyz:
  "exactly ''GET'' ''/readyz'' req \<Longrightarrow>
   router hs this req =
     (if initialized this then Some (send httpStatus_OK ''OK'', [])
      else Some (send httpStatus_SERVICE_UNAVAILABLE NOT_INITIALIZED_MESSAGE, []))"
  by (simp add: exactly_def router_def match_eval)




text \<open>
  The router takes the variants of a route that Express takes: another case of the
  letters, one trailing slash, HEAD on a route for GET. It does not take HEAD on the route
  for POST, nor two trailing slashes.
\<close>

lemma router_takes_variants:
  "mountRoutes sample_handlers \<lparr>initialized = True\<rparr> (http ''GET'' ''/GetChannelsByTopic'') =
     (\<lparr>status = 200, body = ''channels''\<rparr>,
      [Route_handler GetChannelsByTopic, DataAccess ''getChannelsByTopic''])"
  "mountRoutes sample_handlers \<lparr>initialized = True\<rparr> (http ''HEAD'' ''/getChannelsByTopic'') =
     (\<lparr>status = 200, body = ''channels''\<rparr>,
      [Route_handler GetChannelsByTopic, DataAccess ''getChannelsByTopic''])"
  "mountRoutes sample_handlers \<lparr>initialized = False\<rparr> (http ''POST'' ''/persistTransaction/'') =
     (\<lparr>status = 503, body = ''The node is not initialized''\<rparr>, [])"
  "mountRoutes sample_handlers \<lparr>initialized = False\<rparr> (http ''GET'' ''/HEALTHZ'') =
     (\<lparr>status = 200, body = ''OK''\<rparr>, [])"
  "mountRoutes sample_handlers \<lparr>initialized = False\<rparr> (http ''GET'' ''/healthz/'') =
     (\<lparr>status = 200, body = ''OK''\<rparr>, [])"
  by (simp_all add: mountRoutes_def router_def match_eval invoke_def sample_handlers_def
      send_def httpStatus_OK_def httpStatus_SERVICE_UNAVAILABLE_def NOT_INITIALIZED_MESSAGE_def)

lemma router_passes_on:
  "\<not> is_known_route (http ''HEAD'' ''/persistTransaction'')"
  "\<not> is_known_route (http ''GET'' ''/healthz//'')"
  "\<not> is_known_route (http ''POST'' ''/healthz'')"
  by (simp_all add: is_known_route_def match_eval)

section \<open>The readiness test of the application routes\<close>



text \<open>
  C4. A GET request to /readyz is answered in every state of the node, without any event:
  with status 200 and body "OK" when \<^verbatim>\<open>initialized\<close> is true, and with status 503 and
  the body "The node is not initialized" otherwise; so the status is 200 exactly when the
  node is initialized.
\<close>

theorem readyz_reports_initialized:
  assumes "http_method req = ''GET''" and "path req = ''/readyz''"
  shows "mountRoutes hs this req =
           (if initialized this then (\<lparr>status = 200, body = ''OK''\<rparr>, [])
            else (\<lparr>status = 503, body = ''The node is not initialized''\<rparr>, []))
         \<and> (status (fst (mountRoutes hs this req)) = 200) = initialized this"
proof -
  have "exactly ''GET'' ''/readyz'' req"
    using assms by (simp add: exactly_def)
  then show ?thesis
    by (simp add: mountRoutes_def router_readyz send_def httpStatus_OK_def
        httpStatus_SERVICE_UNAVAILABLE_def NOT_INITIALIZED_MESSAGE_def)
qed

theorem readyz_reports_initialized_witness:
  "http_method (http ''GET'' ''/readyz'') = ''GET''
   \<and> path (http ''GET'' ''/readyz'') = ''/readyz''
   \<and> mountRoutes sample_handlers (node_of (initialize env_ok RequestNode_new))
        (http ''GET'' ''/readyz'') = (\<lparr>status = 200, body = ''OK''\<rparr>, [])
   \<and> mountRoutes sample_handlers RequestNode_new (http ''GET'' ''/readyz'') =
        (\<lparr>status = 503, body = ''The node is not initialized''\<rparr>, [])"
  using readyz_reports_initialized
          [of "http ''GET'' ''/readyz''" sample_handlers
              "node_of (initialize env_ok RequestNode_new)"]
        readyz_reports_initialized
          [of "http ''GET'' ''/readyz''" sample_handlers RequestNode_new]
  by (simp add: http_def node_of_initialize succeeds_def env_ok_def RequestNode_new_def)

text \<open>
  C6. A GET request to /healthz is answered with status 200 and body "OK" whatever the
  state of the node is (before, during and after a run of \<^verbatim>\<open>initialize()\<close>, failed or
  not), and it causes no event.
\<close>

theorem healthz_always_OK:
  assumes "http_method req = ''GET''" and "path req = ''/healthz''"
  shows "mountRoutes hs this req = (\<lparr>status = 200, body = ''OK''\<rparr>, [])"
proof -
  have "exactly ''GET'' ''/healthz'' req"
    using assms by (simp add: exactly_def)
  then show ?thesis
    by (simp add: mountRoutes_def router_healthz send_def httpStatus_OK_def)
qed

theorem healthz_always_OK_witness:
  "http_method (http ''GET'' ''/healthz'') = ''GET''
   \<and> path (http ''GET'' ''/healthz'') = ''/healthz''
   \<and> mountRoutes sample_handlers (node_of (initialize env_storage_down RequestNode_new))
        (http ''GET'' ''/healthz'') = (\<lparr>status = 200, body = ''OK''\<rparr>, [])"
  using healthz_always_OK
          [of "http ''GET'' ''/healthz''" sample_handlers
              "node_of (initialize env_storage_down RequestNode_new)"]
  by (simp add: http_def)

section \<open>Requests that no route takes\<close>

lemma NOT_FOUND_MESSAGE_persistTransaction:
  "sublist ''/POST persistTransaction'' NOT_FOUND_MESSAGE"
  by (simp add: NOT_FOUND_MESSAGE_def sublist_Cons_right)

lemma NOT_FOUND_MESSAGE_getTransactionsByChannelId:
  "sublist ''/GET getTransactionsByChannelId'' NOT_FOUND_MESSAGE"
  by (simp add: NOT_FOUND_MESSAGE_def sublist_Cons_right)

lemma NOT_FOUND_MESSAGE_getChannelsByTopic:
  "sublist ''/GET getChannelsByTopic'' NOT_FOUND_MESSAGE"
  by (simp add: NOT_FOUND_MESSAGE_def sublist_Cons_right)

text \<open>
  C7. A request that none of the five routes takes (as Express matches them: the case of
  the letters and one trailing slash do not count, and HEAD goes to a route for GET) is
  passed on by the router and answered by the last middleware with status 404 and the
  fixed body \<^verbatim>\<open>NOT_FOUND_MESSAGE\<close>, whatever the state of the node is, and causes no
  event. The body lists the three application routes, one per line, each as its method and
  its name: "/POST persistTransaction", "/GET getTransactionsByChannelId",
  "/GET getChannelsByTopic".
\<close>

theorem unknown_route_404:
  assumes "\<not> is_known_route req"
  shows "mountRoutes hs this req = (\<lparr>status = 404, body = NOT_FOUND_MESSAGE\<rparr>, [])
         \<and> sublist ''/POST persistTransaction'' (body (fst (mountRoutes hs this req)))
         \<and> sublist ''/GET getTransactionsByChannelId'' (body (fst (mountRoutes hs this req)))
         \<and> sublist ''/GET getChannelsByTopic'' (body (fst (mountRoutes hs this req)))"
proof -
  have "mountRoutes hs this req = (\<lparr>status = 404, body = NOT_FOUND_MESSAGE\<rparr>, [])"
    using assms
    by (simp add: mountRoutes_def router_def is_known_route_def
        send_def httpStatus_NOT_FOUND_def)
  then show ?thesis
    by (simp add: NOT_FOUND_MESSAGE_persistTransaction
        NOT_FOUND_MESSAGE_getTransactionsByChannelId NOT_FOUND_MESSAGE_getChannelsByTopic)
qed

theorem unknown_route_404_witness:
  "\<not> is_known_route (http ''GET'' ''/foo'')
   \<and> mountRoutes sample_handlers (node_of (initialize env_ok RequestNode_new))
        (http ''GET'' ''/foo'') = (\<lparr>status = 404, body = NOT_FOUND_MESSAGE\<rparr>, [])"
  using unknown_route_404
          [of "http ''GET'' ''/foo''" sample_handlers
              "node_of (initialize env_ok RequestNode_new)"]
  by (simp add: is_known_route_def match_eval)

section \<open>The sequence of initialize\<close>

text \<open>
  C2, as the code has it. A run of \<^verbatim>\<open>initialize()\<close> does not write the state of the node
  when it starts: leaving the logging aside, it waits 10000 ms, calls
  \<^verbatim>\<open>dataAccess.initialize()\<close>; if that is fulfilled it calls
  \<^verbatim>\<open>dataAccess.startAutoSynchronization()\<close>, and if that returns it sets
  \<^verbatim>\<open>initialized\<close> to true. This assignment is the only write of the state, nothing is
  written before the call of \<^verbatim>\<open>startAutoSynchronization\<close>, and the node after the run
  is the node before it unless both calls succeeded.
\<close>

theorem initialize_sequence:
  "filter is_step (events_of (initialize e this)) =
     [Sleep 10000, DataAccess ''initialize''] @
     (if dataAccess_initialize e = None
      then DataAccess ''startAutoSynchronization'' #
           (if dataAccess_startAutoSynchronization e = None
            then [Assign_initialized True] else [])
      else [])
   \<and> filter is_state_write
       (takeWhile (\<lambda>ev. ev \<noteq> DataAccess ''startAutoSynchronization'')
          (events_of (initialize e this))) = []
   \<and> node_of (initialize e this) = (if succeeds e then this\<lparr>initialized := True\<rparr> else this)"
proof (intro conjI)
  show "filter is_step (events_of (initialize e this)) =
     [Sleep 10000, DataAccess ''initialize''] @
     (if dataAccess_initialize e = None
      then DataAccess ''startAutoSynchronization'' #
           (if dataAccess_startAutoSynchronization e = None
            then [Assign_initialized True] else [])
      else [])"
    by (simp add: events_of_initialize split: option.splits)
  show "filter is_state_write
       (takeWhile (\<lambda>ev. ev \<noteq> DataAccess ''startAutoSynchronization'')
          (events_of (initialize e this))) = []"
    by (simp add: events_of_initialize split: option.splits)
  show "node_of (initialize e this) = (if succeeds e then this\<lparr>initialized := True\<rparr> else this)"
    by (rule node_of_initialize)
qed

text \<open>
  The sequence stated for C2 begins with a transition of the state of the node, before the
  delay. In a successful run on a new node the only thing that precedes the delay is a log
  line, and the run writes the state once, at its end.
\<close>

theorem initialize_no_state_write_before_delay:
  "takeWhile (\<lambda>ev. ev \<noteq> Sleep 10000) (events_of (initialize env_ok RequestNode_new)) =
     [Logger_info ''Node initialization'']
   \<and> filter is_state_write (events_of (initialize env_ok RequestNode_new)) =
     [Assign_initialized True]
   \<and> filter is_step (events_of (initialize env_ok RequestNode_new)) =
     [Sleep 10000, DataAccess ''initialize'', DataAccess ''startAutoSynchronization'',
      Assign_initialized True]"
  by (simp add: events_of_initialize env_ok_def)

section \<open>A run of initialize that fails\<close>





section \<open>The flag over a history\<close>

lemma initialized_apply_operation:
  "initialized (apply_operation this op) = (initialized this \<or> is_successful_initialize op)"
  by (cases op) (simp_all add: node_of_initialize)

lemma run_requests:
  "run this (map (\<lambda>x. Request (fst x) (snd x)) rs) = this"
  by (induction rs) (simp_all add: run_def)

lemma run_Cons: "run this (op # ops) = run (apply_operation this op) ops"
  by (simp add: run_def)

text \<open>
  C5. The state of the node never regresses. Over any history of requests and calls of
  \<^verbatim>\<open>initialize()\<close>, failed or not, the flag \<^verbatim>\<open>initialized\<close> is true at the end exactly
  when it was true at the start or one of the calls succeeded: once the node is ready it
  stays ready under every later operation, nothing sets the flag back to the value false of
  the constructor, and the only transition is from false to true. Requests never change
  the node. So when \<^verbatim>\<open>initialize()\<close> is called once, as \<^verbatim>\<open>server.ts\<close> does, the node
  stays for all the requests that follow as that call left it: ready if it succeeded, and
  otherwise, after the failure, as it was before the call.
\<close>

theorem initialized_never_regresses:
  "initialized (run this ops) = (initialized this \<or> list_ex is_successful_initialize ops)
   \<and> run this (map (\<lambda>x. Request (fst x) (snd x)) rs) = this
   \<and> run this (Initialize e # map (\<lambda>x. Request (fst x) (snd x)) rs) =
       (if succeeds e then this\<lparr>initialized := True\<rparr> else this)"
proof (intro conjI)
  show "initialized (run this ops) =
      (initialized this \<or> list_ex is_successful_initialize ops)"
  proof (induction ops arbitrary: this)
    case Nil
    show ?case by (simp add: run_def)
  next
    case (Cons op ops)
    have "initialized (run this (op # ops)) =
        (initialized (apply_operation this op) \<or> list_ex is_successful_initialize ops)"
      using Cons.IH [of "apply_operation this op"] by (simp add: run_Cons)
    then show ?case
      by (auto simp: initialized_apply_operation)
  qed
  show "run this (map (\<lambda>x. Request (fst x) (snd x)) rs) = this"
    by (rule run_requests)
  show "run this (Initialize e # map (\<lambda>x. Request (fst x) (snd x)) rs) =
      (if succeeds e then this\<lparr>initialized := True\<rparr> else this)"
    by (simp add: run_Cons run_requests node_of_initialize)
qed

section \<open>The time measurement\<close>

text \<open>
  C8, as the code has it. A run of \<^verbatim>\<open>initialize()\<close> logs one time measurement, the
  difference of the two readings of the clock, when it succeeds, and none when it fails. The
  readings of the clock change nothing else: not the result of the run, not the node after
  it, and no other event. In a successful run the measurement is the last event: it comes
  after the assignment that makes the node ready and after the log line "Node initialized",
  and nothing follows it.
\<close>

theorem timing_only_on_success:
  "filter is_timing (events_of (initialize e this)) =
     (if succeeds e
      then [Logger_info_time_to_initialize (now_end e - now_start e)
              [''metric'', ''initialization'']]
      else [])
   \<and> result_of (initialize (e\<lparr>now_start := a, now_end := b\<rparr>) this) =
       result_of (initialize e this)
   \<and> node_of (initialize (e\<lparr>now_start := a, now_end := b\<rparr>) this) =
       node_of (initialize e this)
   \<and> map without_duration (events_of (initialize (e\<lparr>now_start := a, now_end := b\<rparr>) this)) =
       map without_duration (events_of (initialize e this))
   \<and> dropWhile (\<lambda>ev. ev \<noteq> Assign_initialized True) (events_of (initialize e this)) =
       (if succeeds e
        then [Assign_initialized True, Logger_info ''Node initialized'',
              Logger_info_time_to_initialize (now_end e - now_start e)
                [''metric'', ''initialization'']]
        else [])"
proof (intro conjI)
  show "filter is_timing (events_of (initialize e this)) =
     (if succeeds e
      then [Logger_info_time_to_initialize (now_end e - now_start e)
              [''metric'', ''initialization'']]
      else [])"
    by (simp add: events_of_initialize succeeds_def split: option.splits)
  show "result_of (initialize (e\<lparr>now_start := a, now_end := b\<rparr>) this) =
       result_of (initialize e this)"
    by (simp add: result_of_initialize failure_def split: option.splits)
  show "node_of (initialize (e\<lparr>now_start := a, now_end := b\<rparr>) this) =
       node_of (initialize e this)"
    by (simp add: node_of_initialize succeeds_def)
  show "map without_duration
       (events_of (initialize (e\<lparr>now_start := a, now_end := b\<rparr>) this)) =
       map without_duration (events_of (initialize e this))"
    by (simp add: events_of_initialize split: option.splits)
  show "dropWhile (\<lambda>ev. ev \<noteq> Assign_initialized True) (events_of (initialize e this)) =
       (if succeeds e
        then [Assign_initialized True, Logger_info ''Node initialized'',
              Logger_info_time_to_initialize (now_end e - now_start e)
                [''metric'', ''initialization'']]
        else [])"
    by (simp add: events_of_initialize succeeds_def split: option.splits)
qed

text \<open>
  C8 as stated has every run log the measurement. The run in which
  \<^verbatim>\<open>dataAccess.initialize()\<close> is rejected logs none.
\<close>

theorem failed_initialize_emits_no_timing:
  "filter is_timing (events_of (initialize env_storage_down RequestNode_new)) = []
   \<and> events_of (initialize env_storage_down RequestNode_new) =
       [Logger_info ''Node initialization'', Sleep 10000, DataAccess ''initialize'',
        Logger_error ''Node failed to initialize'']"
  by (simp add: events_of_initialize env_storage_down_def)

section \<open>Calling initialize again\<close>

text \<open>
  C9. \<^verbatim>\<open>initialize()\<close> does not look at the state of the node. A second call, after a
  first call with any outcome (also one that set \<^verbatim>\<open>initialized\<close> to true), has the result
  and the events that the same call has on a new node: it logs, waits 10000 ms and calls
  \<^verbatim>\<open>dataAccess.initialize()\<close> again, calls \<^verbatim>\<open>startAutoSynchronization()\<close> again
  whenever that is fulfilled, and is rejected only with an error of one of these two calls.
\<close>

theorem initialize_again_runs_again:
  "result_of (initialize e2 (node_of (initialize e1 this))) =
     result_of (initialize e2 RequestNode_new)
   \<and> events_of (initialize e2 (node_of (initialize e1 this))) =
     events_of (initialize e2 RequestNode_new)
   \<and> take 3 (events_of (initialize e2 (node_of (initialize e1 this)))) =
     [Logger_info ''Node initialization'', Sleep 10000, DataAccess ''initialize'']
   \<and> (DataAccess ''startAutoSynchronization''
        \<in> set (events_of (initialize e2 (node_of (initialize e1 this)))))
     = (dataAccess_initialize e2 = None)
   \<and> result_of (initialize e2 (node_of (initialize e1 this))) =
     (case failure e2 of None \<Rightarrow> Inr () | Some err \<Rightarrow> Inl err)"
proof -
  let ?again = "initialize e2 (node_of (initialize e1 this))"
  have r: "result_of ?again = (case failure e2 of None \<Rightarrow> Inr () | Some err \<Rightarrow> Inl err)"
    by (rule result_of_initialize)
  have r0: "result_of ?again = result_of (initialize e2 RequestNode_new)"
    by (simp add: result_of_initialize)
  have ev: "events_of ?again = events_of (initialize e2 RequestNode_new)"
    by (simp add: events_of_initialize)
  have first: "take 3 (events_of ?again) =
      [Logger_info ''Node initialization'', Sleep 10000, DataAccess ''initialize'']"
    by (simp add: events_of_initialize)
  have sync: "(DataAccess ''startAutoSynchronization'' \<in> set (events_of ?again))
      = (dataAccess_initialize e2 = None)"
    by (simp add: events_of_initialize split: option.splits)
  show ?thesis
    using r r0 ev first sync by simp
qed

section \<open>A failed node and a new node\<close>

text \<open>
  C10. The state that the routes read is the one boolean, and a run of \<^verbatim>\<open>initialize()\<close>
  that fails does not write it. So after a failed run every request, to whatever route, gets
  the answer (and causes the events) that the same request gets before the run; in
  particular on a new node, on which \<^verbatim>\<open>initialize()\<close> was never called.
\<close>

theorem failed_initialize_indistinguishable:
  assumes "result_of (initialize e this) = Inl err"
  shows "mountRoutes hs (node_of (initialize e this)) req = mountRoutes hs this req"
proof -
  have "\<not> succeeds e"
    using assms by (auto simp: result_of_initialize succeeds_failure split: option.splits)
  then show ?thesis by (simp add: node_of_initialize)
qed

theorem failed_initialize_indistinguishable_witness:
  "result_of (initialize env_sync_down RequestNode_new) = Inl ''synchronization refused''
   \<and> mountRoutes sample_handlers (node_of (initialize env_sync_down RequestNode_new))
        (http ''GET'' ''/readyz'') =
      mountRoutes sample_handlers RequestNode_new (http ''GET'' ''/readyz'')"
  using failed_initialize_indistinguishable
          [of env_sync_down RequestNode_new "''synchronization refused''" sample_handlers
              "http ''GET'' ''/readyz''"]
  by (simp add: result_of_initialize failure_def env_sync_down_def)

end
